theory Spec2Isabelle
  imports Main
begin

section \<open>VibeCoding: the voice client (app.js) and the Cortex relay server\<close>

text \<open>
  A shallow embedding of the session logic of \<^verbatim>\<open>class VoiceCortexApp\<close> (app.js) and of
  the relay endpoint \<^verbatim>\<open>POST /api/cortex-agent\<close> with its connection cache (the server
  file whose handler assembles the prompt from the conversation; the other
  server file has the same connection cache and hands the message alone to the
  model). Left out: DOM rendering of messages, the audio visualiser, the message
  time stamps, the write of the settings to local storage and console logging;
  none of them is read by the session logic.

  Text is a \<^typ>\<open>string\<close>; every \<^typ>\<open>char\<close> stands for one code unit in the range
  U+0000 to U+00FF.
\<close>

subsection \<open>JavaScript values and operators\<close>

text \<open>A value that is a string, \<^verbatim>\<open>null\<close> or \<^verbatim>\<open>undefined\<close> (a JSON field that may be absent).\<close>

datatype jsval = Undefined | Null | Str string

text \<open>Truthiness: the empty string, \<^verbatim>\<open>null\<close> and \<^verbatim>\<open>undefined\<close> are falsy.\<close>

definition truthy :: "string \<Rightarrow> bool" where
  "truthy s = (s \<noteq> [])"

fun truthy_val :: "jsval \<Rightarrow> bool" where
  "truthy_val Undefined = False"
| "truthy_val Null = False"
| "truthy_val (Str s) = truthy s"

text \<open>\<^verbatim>\<open>a && b\<close> and \<^verbatim>\<open>a || b\<close> return one of their operands.\<close>

definition js_and :: "string \<Rightarrow> string \<Rightarrow> string" where
  "js_and a b = (if truthy a then b else a)"

definition js_or :: "string \<Rightarrow> string \<Rightarrow> string" where
  "js_or a b = (if truthy a then a else b)"

text \<open>String conversion, as in a template literal \<^verbatim>\<open>`${v}`\<close>.\<close>

fun template :: "jsval \<Rightarrow> string" where
  "template Undefined = ''undefined''"
| "template Null = ''null''"
| "template (Str s) = s"

text \<open>Decimal rendering of a number (\<^verbatim>\<open>`${response.status}`\<close>).\<close>

text \<open>The decimal digit of a number below ten.\<close>

definition digit :: "nat \<Rightarrow> char" where
  "digit d = ''0123456789'' ! d"

fun string_of_nat :: "nat \<Rightarrow> string" where
  "string_of_nat n =
     (let units = digit (n mod 10); tens = n div 10
      in if tens = 0 then [units] else string_of_nat tens @ [units])"

declare string_of_nat.simps [simp del]

text \<open>
  \<^verbatim>\<open>String.prototype.trim\<close>: white space and line terminators are removed at both
  ends (TAB, LF, VT, FF, CR, SPACE, NBSP in the modelled range).
\<close>

definition isWhiteSpace :: "char \<Rightarrow> bool" where
  "isWhiteSpace c =
     (c \<in> set [CHR 0x09, CHR 0x0A, CHR 0x0B, CHR 0x0C, CHR 0x0D, CHR 0x20, CHR 0xA0])"

definition trim :: "string \<Rightarrow> string" where
  "trim s = rev (dropWhile isWhiteSpace (rev (dropWhile isWhiteSpace s)))"

text \<open>
  \<^verbatim>\<open>Array.prototype.slice(start)\<close>: a negative start counts from the end and is
  clamped at 0, a positive one is clamped at the length.
\<close>

definition slice :: "int \<Rightarrow> 'a list \<Rightarrow> 'a list" where
  "slice start xs =
     (let len = int (length xs);
          k = (if start < 0 then max (len + start) 0 else min start len)
      in drop (nat k) xs)"

text \<open>\<^verbatim>\<open>Array.prototype.join(sep)\<close> on an array of strings.\<close>

fun join :: "string \<Rightarrow> string list \<Rightarrow> string" where
  "join sep [] = []"
| "join sep [x] = x"
| "join sep (x # y # ys) = x @ sep @ join sep (y # ys)"

subsection \<open>Conversation messages\<close>

text \<open>The \<^verbatim>\<open>type\<close> argument of \<^verbatim>\<open>addMessage\<close>: \<^verbatim>\<open>'user'\<close> or \<^verbatim>\<open>'agent'\<close>.\<close>

datatype role = User | Agent

record message =
  role :: role
  content :: jsval

subsection \<open>The relay server\<close>

text \<open>The configuration handed to \<^verbatim>\<open>getSnowflakeConnection\<close>.\<close>

record config =
  cfg_account :: string
  cfg_username :: string
  cfg_password :: string
  cfg_warehouse :: string
  cfg_database :: string
  cfg_schema :: string

text \<open>
  A connection object is identified by the configuration it was created from
  (\<^verbatim>\<open>snowflake.createConnection({...})\<close>).
\<close>

type_synonym connection = config

type_synonym connectionPool = "string \<rightharpoonup> connection"

definition pool_key :: "config \<Rightarrow> string" where
  "pool_key c = cfg_account c @ ''-'' @ cfg_username c"

text \<open>
  \<^verbatim>\<open>getSnowflakeConnection\<close>. The Snowflake driver is outside the repository:
  \<open>connect c\<close> is the outcome of \<^verbatim>\<open>connection.connect\<close> for a connection created
  from \<open>c\<close>, \<open>None\<close> for success and \<open>Some err\<close> for an error. The result is the
  updated pool and the rejected error (\<open>Inl\<close>) or the resolved connection.
\<close>

definition getSnowflakeConnection ::
  "(config \<Rightarrow> string option) \<Rightarrow> connectionPool \<Rightarrow> config \<Rightarrow> connectionPool \<times> (string + connection)"
where
  "getSnowflakeConnection connect pool c =
     (let key = pool_key c in
      case pool key of
        Some conn \<Rightarrow> (pool, Inr conn)
      | None \<Rightarrow>
          (case connect c of
             Some err \<Rightarrow> (pool, Inl err)
           | None \<Rightarrow> (pool(key \<mapsto> c), Inr c)))"

text \<open>The JSON body of \<^verbatim>\<open>POST /api/cortex-agent\<close>, as the client builds it.\<close>

record request =
  req_account :: string
  req_username :: string
  req_password :: string
  req_warehouse :: string
  req_database :: string
  req_schema :: string
  req_agent :: string
  req_message :: string
  req_conversation :: "message list option"

text \<open>A result row of the completion query and the outcome of \<^verbatim>\<open>executeQuery\<close>.\<close>

record row =
  RESPONSE :: jsval

datatype query_result = QueryError string | Rows "row list option"

text \<open>
  A JSON response body: the fields the client reads (\<^verbatim>\<open>success\<close> and \<^verbatim>\<open>timestamp\<close>
  are never read).
\<close>

record json =
  j_error :: jsval
  j_message :: jsval
  j_response :: jsval

text \<open>Lines 93 to 101 of the server: the prompt sent to the model.\<close>

definition render :: "message \<Rightarrow> string" where
  "render msg = (if role msg = User then ''User'' else ''Assistant'') @ '': '' @ template (content msg)"

definition fullPrompt :: "string \<Rightarrow> message list option \<Rightarrow> string" where
  "fullPrompt message conversation =
     (case conversation of
        None \<Rightarrow> message
      | Some conv \<Rightarrow>
          if length conv > 0 then
            (let recentHistory = join ''\<newline>'' (map render (slice (- 5) conv))
             in ''Previous conversation:\<newline>'' @ recentHistory @ ''\<newline>\<newline>User: '' @ message
                @ ''\<newline>\<newline>Assistant:'')
          else message)"

definition completeQuery :: string where
  "completeQuery = ''SELECT SNOWFLAKE.CORTEX.COMPLETE(?, ?) AS response''"

text \<open>Line 117 of the server: \<^verbatim>\<open>result && result[0] ? result[0].RESPONSE : '...'\<close>.\<close>

definition extractResponse :: "row list option \<Rightarrow> jsval" where
  "extractResponse result =
     (case result of
        Some (r # rs) \<Rightarrow> RESPONSE r
      | _ \<Rightarrow> Str ''No response from agent'')"

text \<open>
  The handler of \<^verbatim>\<open>POST /api/cortex-agent\<close>. \<open>db conn sql binds\<close> is the outcome of
  \<^verbatim>\<open>executeQuery\<close> on the driver. The result is the pool, the HTTP status and
  the body.
\<close>

definition cortex_agent ::
  "(config \<Rightarrow> string option) \<Rightarrow> (connection \<Rightarrow> string \<Rightarrow> string list \<Rightarrow> query_result)
     \<Rightarrow> connectionPool \<Rightarrow> request \<Rightarrow> connectionPool \<times> nat \<times> json"
where
  "cortex_agent connect db pool req =
     (if \<not> truthy (req_account req) \<or> \<not> truthy (req_username req) \<or> \<not> truthy (req_password req)
         \<or> \<not> truthy (req_agent req) \<or> \<not> truthy (req_message req)
      then (pool, 400, \<lparr>j_error = Str ''Missing required fields'', j_message = Undefined,
                        j_response = Undefined\<rparr>)
      else
        (case getSnowflakeConnection connect pool
                \<lparr>cfg_account = req_account req, cfg_username = req_username req,
                 cfg_password = req_password req,
                 cfg_warehouse = js_or (req_warehouse req) ''COMPUTE_WH'',
                 cfg_database = js_or (req_database req) ''CORTEX_DB'',
                 cfg_schema = js_or (req_schema req) ''AGENTS''\<rparr> of
           (pool', Inl err) \<Rightarrow>
             (pool', 500, \<lparr>j_error = Str ''Internal server error'', j_message = Str err,
                           j_response = Undefined\<rparr>)
         | (pool', Inr connection) \<Rightarrow>
             (case db connection completeQuery
                     [req_agent req, fullPrompt (req_message req) (req_conversation req)] of
                QueryError err \<Rightarrow>
                  (pool', 500, \<lparr>j_error = Str ''Internal server error'', j_message = Str err,
                                j_response = Undefined\<rparr>)
              | Rows result \<Rightarrow>
                  (pool', 200, \<lparr>j_error = Undefined, j_message = Undefined,
                                j_response = extractResponse result\<rparr>))))"

subsection \<open>The client: state\<close>

record settings =
  account :: string
  username :: string
  password :: string
  warehouse :: string
  database :: string
  schema :: string
  agent :: string
  language :: string

text \<open>
  The browser's \<^verbatim>\<open>SpeechRecognition\<close> object: its language, whether it is started
  (from a successful \<^verbatim>\<open>start()\<close> until its \<^verbatim>\<open>end\<close> event) and whether \<^verbatim>\<open>stop()\<close>
  has been requested.
\<close>

record recognition =
  lang :: string
  started :: bool
  stopping :: bool

text \<open>The argument of \<^verbatim>\<open>updateUI\<close>; \<^verbatim>\<open>'ready'\<close> is also the default case.\<close>

datatype ui_state = Listening | Processing | Ready

datatype toast_type = Error | Success

text \<open>
  The fields of \<^verbatim>\<open>VoiceCortexApp\<close>, and what its handlers do to the outside:
  \<open>uiState\<close> is the state last shown by \<^verbatim>\<open>updateUI\<close>, \<open>settingsModal\<close> whether the
  settings dialog is open, \<open>toasts\<close> the notifications shown by \<^verbatim>\<open>showToast\<close>,
  \<open>fetches\<close> the bodies of the calls of \<^verbatim>\<open>fetch('/api/cortex-agent')\<close> in order,
  and \<open>awaiting\<close> the number of activations of \<^verbatim>\<open>handleFinalTranscript\<close> suspended
  at such a call.
\<close>

record app =
  recognition :: "recognition option"
  isListening :: bool
  isProcessing :: bool
  conversation :: "message list"
  settings :: settings
  uiState :: ui_state
  settingsModal :: bool
  toasts :: "(toast_type \<times> string) list"
  fetches :: "request list"
  awaiting :: nat

text \<open>The values of the inputs of the settings dialog.\<close>

record inputs =
  accountInput :: string
  usernameInput :: string
  passwordInput :: string
  warehouseInput :: string
  databaseInput :: string
  schemaInput :: string
  agentInput :: string
  languageSelect :: string

subsection \<open>The client: settings\<close>

definition defaultSettings :: settings where
  "defaultSettings =
     \<lparr>account = '''', username = '''', password = '''', warehouse = ''COMPUTE_WH'',
      database = ''CORTEX_DB'', schema = ''AGENTS'', agent = ''MY_AGENT'', language = ''en-US''\<rparr>"

text \<open>
  \<^verbatim>\<open>loadSettings\<close>: the argument is the settings object parsed from local storage,
  \<open>None\<close> when nothing is stored or the stored text does not parse.
\<close>

definition loadSettings :: "settings option \<Rightarrow> settings" where
  "loadSettings saved = (case saved of Some st \<Rightarrow> st | None \<Rightarrow> defaultSettings)"

text \<open>\<^verbatim>\<open>validateSettings\<close> returns the value of the \<^verbatim>\<open>&&\<close> chain; callers test it for truth.\<close>

definition validateSettings :: "app \<Rightarrow> string" where
  "validateSettings s =
     js_and (js_and (account (settings s)) (username (settings s))) (agent (settings s))"

definition showToast :: "string \<Rightarrow> toast_type \<Rightarrow> app \<Rightarrow> app" where
  "showToast msg ty s = s\<lparr>toasts := toasts s @ [(ty, msg)]\<rparr>"

definition showError :: "string \<Rightarrow> app \<Rightarrow> app" where
  "showError msg s = showToast msg Error s"

definition showSuccess :: "string \<Rightarrow> app \<Rightarrow> app" where
  "showSuccess msg s = showToast msg Success s"

definition openSettings :: "app \<Rightarrow> app" where
  "openSettings s = s\<lparr>settingsModal := True\<rparr>"

definition closeSettingsModal :: "app \<Rightarrow> app" where
  "closeSettingsModal s = s\<lparr>settingsModal := False\<rparr>"

definition saveSettingsData :: "inputs \<Rightarrow> app \<Rightarrow> app" where
  "saveSettingsData inp s =
     (let st = \<lparr>account = trim (accountInput inp),
                username = trim (usernameInput inp),
                password = passwordInput inp,
                warehouse = js_or (trim (warehouseInput inp)) ''COMPUTE_WH'',
                database = js_or (trim (databaseInput inp)) ''CORTEX_DB'',
                schema = js_or (trim (schemaInput inp)) ''AGENTS'',
                agent = js_or (trim (agentInput inp)) ''MY_AGENT'',
                language = languageSelect inp\<rparr>;
          s1 = s\<lparr>settings := st\<rparr>;
          s2 = (case recognition s1 of
                  Some r \<Rightarrow> s1\<lparr>recognition := Some (r\<lparr>lang := language st\<rparr>)\<rparr>
                | None \<Rightarrow> s1)
      in showSuccess ''Settings saved successfully!'' (closeSettingsModal s2))"

subsection \<open>The client: capture\<close>

definition updateUI :: "ui_state \<Rightarrow> app \<Rightarrow> app" where
  "updateUI state s = s\<lparr>uiState := state\<rparr>"

text \<open>
  \<^verbatim>\<open>startListening\<close>. The recogniser's \<^verbatim>\<open>start()\<close> throws \<^verbatim>\<open>InvalidStateError\<close> on a
  recogniser that is already started (Web Speech API); the handler catches and
  logs it. The assignment to \<^verbatim>\<open>lang\<close> precedes the call.
\<close>

definition startListening :: "app \<Rightarrow> app" where
  "startListening s =
     (case recognition s of
        None \<Rightarrow> showError ''Speech recognition is not available'' s
      | Some r \<Rightarrow>
          if \<not> truthy (validateSettings s)
          then openSettings (showError ''Please configure your Snowflake settings first'' s)
          else
            (let r1 = r\<lparr>lang := js_or (language (settings s)) ''en-US''\<rparr> in
             if started r1 then s\<lparr>recognition := Some r1\<rparr>
             else s\<lparr>recognition := Some (r1\<lparr>started := True\<rparr>)\<rparr>))"

text \<open>\<^verbatim>\<open>stopListening\<close>: \<^verbatim>\<open>stop()\<close> asks the recogniser to end; its \<^verbatim>\<open>end\<close> event follows.\<close>

definition stopListening :: "app \<Rightarrow> app" where
  "stopListening s =
     (case recognition s of
        Some r \<Rightarrow> if isListening s then s\<lparr>recognition := Some (r\<lparr>stopping := True\<rparr>)\<rparr> else s
      | None \<Rightarrow> s)"

definition toggleListening :: "app \<Rightarrow> app" where
  "toggleListening s = (if isListening s then stopListening s else startListening s)"

definition addMessage :: "role \<Rightarrow> jsval \<Rightarrow> app \<Rightarrow> app" where
  "addMessage ty text s = s\<lparr>conversation := conversation s @ [\<lparr>role = ty, content = text\<rparr>]\<rparr>"

text \<open>\<^verbatim>\<open>clearConversation\<close>: the argument is the user's answer to \<^verbatim>\<open>confirm(...)\<close>.\<close>

definition clearConversation :: "bool \<Rightarrow> app \<Rightarrow> app" where
  "clearConversation confirmed s = (if confirmed then s\<lparr>conversation := []\<rparr> else s)"

subsection \<open>The client: dispatch\<close>

text \<open>
  What \<^verbatim>\<open>fetch\<close> settles with: a rejection (network error, with its message) or
  a response with its status and body; \<^verbatim>\<open>response.json()\<close> rejects on a body that
  is not JSON, with the parser's message.
\<close>

datatype body = Unparseable string | Parsed json

datatype fetch_outcome = NetworkError string | Response nat body

definition ok :: "nat \<Rightarrow> bool" where
  "ok status = (200 \<le> status \<and> status \<le> 299)"

text \<open>
  \<^verbatim>\<open>sendToCortexAgent\<close> up to the call of \<^verbatim>\<open>fetch\<close>: the settings are read and
  checked, and the body is serialised. \<open>Inl\<close> is the message of the error thrown.
\<close>

definition sendToCortexAgent_request :: "string \<Rightarrow> app \<Rightarrow> string + request" where
  "sendToCortexAgent_request message s =
     (let st = settings s in
      if \<not> truthy (account st) \<or> \<not> truthy (username st) \<or> \<not> truthy (agent st)
      then Inl ''Snowflake configuration incomplete. Please check your settings.''
      else Inr \<lparr>req_account = account st, req_username = username st,
                req_password = password st, req_warehouse = warehouse st,
                req_database = database st, req_schema = schema st,
                req_agent = agent st, req_message = message,
                req_conversation = Some (conversation s)\<rparr>)"

text \<open>
  \<^verbatim>\<open>sendToCortexAgent\<close> from the settling of \<^verbatim>\<open>fetch\<close> on: \<open>Inl\<close> is the message of
  the error thrown, \<open>Inr\<close> the value of \<^verbatim>\<open>data.response\<close> returned.
\<close>

fun sendToCortexAgent_response :: "fetch_outcome \<Rightarrow> string + jsval" where
  "sendToCortexAgent_response (NetworkError msg) = Inl msg"
| "sendToCortexAgent_response (Response status b) =
     (if \<not> ok status then
        (let errorData_message = (case b of Unparseable e \<Rightarrow> Undefined | Parsed j \<Rightarrow> j_message j)
         in Inl (if truthy_val errorData_message then template errorData_message
                 else ''API error: '' @ string_of_nat status))
      else
        (case b of Unparseable e \<Rightarrow> Inl e | Parsed data \<Rightarrow> Inr (j_response data)))"

definition apology :: string where
  "apology = ''Sorry, I encountered an error processing your request. Please check your Snowflake configuration.''"

text \<open>
  \<^verbatim>\<open>handleFinalTranscript\<close> is an async function. Its first part runs to the
  \<^verbatim>\<open>await\<close>: it returns at once on a blank transcript, and otherwise awaits a
  promise that is already rejected (incomplete settings) or the call of \<^verbatim>\<open>fetch\<close>.
\<close>

datatype awaited = Returned | Rejected string | Fetching request

definition handleFinalTranscript_begin :: "string \<Rightarrow> app \<Rightarrow> app \<times> awaited" where
  "handleFinalTranscript_begin transcript s =
     (if \<not> truthy (trim transcript) then (s, Returned)
      else
        (let s1 = stopListening s;
             s2 = s1\<lparr>isProcessing := True\<rparr>;
             s3 = updateUI Processing s2;
             s4 = addMessage User (Str transcript) s3
         in case sendToCortexAgent_request transcript s4 of
              Inl msg \<Rightarrow> (s4, Rejected msg)
            | Inr req \<Rightarrow>
                (s4\<lparr>fetches := fetches s4 @ [req], awaiting := Suc (awaiting s4)\<rparr>, Fetching req)))"

text \<open>
  Its second part runs when the awaited promise settles: the rest of the
  \<^verbatim>\<open>try\<close> block or the \<^verbatim>\<open>catch\<close> block, then the \<^verbatim>\<open>finally\<close> block.
\<close>

definition handleFinalTranscript_settle :: "string + jsval \<Rightarrow> app \<Rightarrow> app" where
  "handleFinalTranscript_settle result s =
     (let s1 = (case result of
                  Inr response \<Rightarrow> addMessage Agent response s
                | Inl msg \<Rightarrow>
                    addMessage Agent (Str apology)
                      (showError (''Error communicating with Cortex Agent: '' @ msg) s))
      in updateUI Ready (s1\<lparr>isProcessing := False\<rparr>))"

text \<open>
  A call of \<^verbatim>\<open>handleFinalTranscript\<close> as one event: an already rejected promise
  settles before any other event is handled.
\<close>

definition handleFinalTranscript :: "string \<Rightarrow> app \<Rightarrow> app" where
  "handleFinalTranscript transcript s =
     (case handleFinalTranscript_begin transcript s of
        (s', Rejected msg) \<Rightarrow> handleFinalTranscript_settle (Inl msg) s'
      | (s', _) \<Rightarrow> s')"

subsection \<open>The client: handlers of the recogniser's events\<close>

definition onstart :: "app \<Rightarrow> app" where
  "onstart s = updateUI Listening (s\<lparr>isListening := True\<rparr>)"

text \<open>
  \<^verbatim>\<open>onresult\<close>: the argument lists \<^verbatim>\<open>event.results\<close> from \<^verbatim>\<open>event.resultIndex\<close> on,
  each with its transcript and \<^verbatim>\<open>isFinal\<close>. The interim text only goes to the page.
\<close>

definition onresult :: "(string \<times> bool) list \<Rightarrow> app \<Rightarrow> app" where
  "onresult results s =
     (let finalTranscript = concat (map fst (filter snd results)) in
      if truthy finalTranscript then handleFinalTranscript finalTranscript s else s)"

definition onerror :: "string \<Rightarrow> app \<Rightarrow> app" where
  "onerror err s =
     (if err = ''no-speech'' then updateUI Ready s
      else if err \<noteq> ''aborted''
      then updateUI Ready (showError (''Speech recognition error: '' @ err) s)
      else s)"

definition onend :: "app \<Rightarrow> app" where
  "onend s =
     (let s1 = s\<lparr>isListening := False\<rparr> in
      if \<not> isProcessing s1 then updateUI Ready s1 else s1)"

subsection \<open>The client as a state machine\<close>

text \<open>
  The constructor: whether the browser has speech recognition, and what local
  storage holds. The page starts in the ready state.
\<close>

definition VoiceCortexApp :: "bool \<Rightarrow> settings option \<Rightarrow> app" where
  "VoiceCortexApp supported saved =
     (let st = loadSettings saved in
      \<lparr>recognition =
         (if supported
          then Some \<lparr>lang = js_or (language st) ''en-US'', started = False, stopping = False\<rparr>
          else None),
       isListening = False, isProcessing = False, conversation = [], settings = st,
       uiState = Ready, settingsModal = False,
       toasts =
         (if supported then []
          else [(Error, ''Speech recognition is not supported in this browser. Please use Chrome or Edge.'')]),
       fetches = [], awaiting = 0\<rparr>)"

text \<open>
  The events the page reacts to: the user's (the microphone button and Ctrl+Space
  toggle, the stop button, Escape, the clear button with the answer to the
  confirmation, the settings dialog), the recogniser's, and the settling of a
  call of \<^verbatim>\<open>fetch\<close>.
\<close>

datatype event =
    MicClick
  | StopClick
  | EscapeKey
  | ClearClick bool
  | SettingsClick
  | CloseSettingsClick
  | SaveSettingsClick inputs
  | RecStart
  | RecResult "(string \<times> bool) list"
  | RecError string
  | RecEnd
  | FetchSettled fetch_outcome

text \<open>
  The recogniser fires its events only while it is started, and its \<^verbatim>\<open>end\<close> event
  leaves it stopped; a call of \<^verbatim>\<open>fetch\<close> settles only if one is awaited.
\<close>

definition recognising :: "app \<Rightarrow> bool" where
  "recognising s = (case recognition s of Some r \<Rightarrow> started r | None \<Rightarrow> False)"

definition recognition_ended :: "app \<Rightarrow> app" where
  "recognition_ended s =
     (case recognition s of
        Some r \<Rightarrow> s\<lparr>recognition := Some (r\<lparr>started := False, stopping := False\<rparr>)\<rparr>
      | None \<Rightarrow> s)"

fun step :: "event \<Rightarrow> app \<Rightarrow> app" where
  "step MicClick s = toggleListening s"
| "step StopClick s = stopListening s"
| "step EscapeKey s =
     (if settingsModal s then closeSettingsModal s
      else if isListening s then stopListening s else s)"
| "step (ClearClick confirmed) s = clearConversation confirmed s"
| "step SettingsClick s = openSettings s"
| "step CloseSettingsClick s = closeSettingsModal s"
| "step (SaveSettingsClick inp) s = saveSettingsData inp s"
| "step RecStart s = (if recognising s then onstart s else s)"
| "step (RecResult results) s = (if recognising s then onresult results s else s)"
| "step (RecError err) s = (if recognising s then onerror err s else s)"
| "step RecEnd s = (if recognising s then onend (recognition_ended s) else s)"
| "step (FetchSettled outcome) s =
     (if awaiting s > 0
      then handleFinalTranscript_settle (sendToCortexAgent_response outcome)
             (s\<lparr>awaiting := awaiting s - 1\<rparr>)
      else s)"

fun run :: "event list \<Rightarrow> app \<Rightarrow> app" where
  "run [] s = s"
| "run (e # es) s = run es (step e s)"

text \<open>The relay's answer as the client's \<^verbatim>\<open>fetch\<close> sees it.\<close>

definition relayed :: "connectionPool \<times> nat \<times> json \<Rightarrow> fetch_outcome" where
  "relayed r = (case r of (pool, status, j) \<Rightarrow> Response status (Parsed j))"

subsection \<open>Notions used in the properties\<close>

text \<open>
  What a session is for turn taking: the two flags, the state shown, the turns,
  the dispatches made and those still awaited.
\<close>

definition same_session :: "app \<Rightarrow> app \<Rightarrow> bool" where
  "same_session s s' =
     (isListening s' = isListening s \<and> isProcessing s' = isProcessing s \<and> uiState s' = uiState s
      \<and> conversation s' = conversation s \<and> fetches s' = fetches s \<and> awaiting s' = awaiting s)"

text \<open>A text that is not empty after trimming; an absent text is not one.\<close>

fun nonblank :: "jsval \<Rightarrow> bool" where
  "nonblank (Str t) = truthy (trim t)"
| "nonblank Null = False"
| "nonblank Undefined = False"

definition user_turn_ok :: "message \<Rightarrow> bool" where
  "user_turn_ok m = (role m = User \<longrightarrow> nonblank (content m))"

text \<open>A dispatched body whose account, user name and agent are all present.\<close>

definition request_ok :: "request \<Rightarrow> bool" where
  "request_ok r = (truthy (req_account r) \<and> truthy (req_username r) \<and> truthy (req_agent r))"


subsection \<open>Example sessions\<close>

text \<open>A page with speech recognition and complete stored settings.\<close>

definition session0 :: app where
  "session0 = VoiceCortexApp True
     (Some \<lparr>account = ''acme'', username = ''ann'', password = ''pw'', warehouse = ''COMPUTE_WH'',
            database = ''CORTEX_DB'', schema = ''AGENTS'', agent = ''mistral-large'',
            language = ''en-US''\<rparr>)"

text \<open>The user has clicked the microphone and the recogniser has started.\<close>

definition listening0 :: app where
  "listening0 = run [MicClick, RecStart] session0"

text \<open>
  The recogniser has then delivered the final transcript \<open>hi\<close> and ended; the
  call of the relay is awaited.
\<close>

definition processing0 :: app where
  "processing0 = run [RecResult [(''hi'', True)], RecEnd] listening0"

text \<open>Two fillings of the settings dialog: a blank account, and another account.\<close>

definition blank_account :: inputs where
  "blank_account =
     \<lparr>accountInput = ''  '', usernameInput = ''ann'', passwordInput = ''pw'',
      warehouseInput = '''', databaseInput = '''', schemaInput = '''', agentInput = '''',
      languageSelect = ''en-US''\<rparr>"

definition other_account :: inputs where
  "other_account =
     \<lparr>accountInput = '' umbrella '', usernameInput = ''bob'', passwordInput = ''s3cret'',
      warehouseInput = ''WH2'', databaseInput = '''', schemaInput = '''', agentInput = ''llama3-8b'',
      languageSelect = ''en-GB''\<rparr>"

text \<open>
  Drivers for the relay: one that accepts only the password \<open>pw\<close>, and a model
  that answers every prompt with a fixed text.
\<close>

definition connect_pw :: "config \<Rightarrow> string option" where
  "connect_pw c = (if cfg_password c = ''pw'' then None else Some ''Incorrect username or password'')"

definition db_returning :: "string \<Rightarrow> connection \<Rightarrow> string \<Rightarrow> string list \<Rightarrow> query_result" where
  "db_returning t conn sql binds = Rows (Some [\<lparr>RESPONSE = Str t\<rparr>])"

definition ann_config :: config where
  "ann_config =
     \<lparr>cfg_account = ''acme'', cfg_username = ''ann'', cfg_password = ''pw'',
      cfg_warehouse = ''COMPUTE_WH'', cfg_database = ''CORTEX_DB'', cfg_schema = ''AGENTS''\<rparr>"

definition ann_request :: request where
  "ann_request =
     \<lparr>req_account = ''acme'', req_username = ''ann'', req_password = ''pw'',
      req_warehouse = ''COMPUTE_WH'', req_database = ''CORTEX_DB'', req_schema = ''AGENTS'',
      req_agent = ''mistral-large'', req_message = ''hi'',
      req_conversation = Some [\<lparr>role = User, content = Str ''hi''\<rparr>]\<rparr>"


text \<open>
  The first dispatch of the listening session, a gateway whose answer names the
  account and the agent of the body it is sent, and the body of a dispatch made
  under the settings of \<open>other_account\<close>.
\<close>

definition dispatched0 :: app where
  "dispatched0 = fst (handleFinalTranscript_begin ''hi'' listening0)"

definition naming_gateway :: "request \<Rightarrow> fetch_outcome" where
  "naming_gateway r =
     Response 200 (Parsed \<lparr>j_error = Undefined, j_message = Undefined,
                            j_response = Str (req_account r @ ''/'' @ req_agent r)\<rparr>)"

definition other_request :: request where
  "other_request =
     \<lparr>req_account = ''umbrella'', req_username = ''bob'', req_password = ''s3cret'',
      req_warehouse = ''WH2'', req_database = ''CORTEX_DB'', req_schema = ''AGENTS'',
      req_agent = ''llama3-8b'', req_message = ''again'',
      req_conversation = Some [\<lparr>role = User, content = Str ''hi''\<rparr>,
                               \<lparr>role = User, content = Str ''again''\<rparr>]\<rparr>"

section \<open>Properties\<close>

subsection \<open>Evaluation of the example sessions\<close>

lemmas eval_defs =
  VoiceCortexApp_def loadSettings_def toggleListening_def startListening_def
  validateSettings_def js_and_def js_or_def truthy_def Let_def recognising_def onstart_def updateUI_def
  onresult_def handleFinalTranscript_def handleFinalTranscript_begin_def trim_def isWhiteSpace_def
  stopListening_def addMessage_def sendToCortexAgent_request_def onend_def recognition_ended_def
  handleFinalTranscript_settle_def showError_def showToast_def ok_def relayed_def cortex_agent_def
  getSnowflakeConnection_def pool_key_def connect_pw_def db_returning_def completeQuery_def
  extractResponse_def fullPrompt_def slice_def render_def saveSettingsData_def showSuccess_def
  closeSettingsModal_def blank_account_def other_account_def openSettings_def clearConversation_def

lemma session0_eq:
  "session0 =
     \<lparr>recognition = Some \<lparr>lang = ''en-US'', started = False, stopping = False\<rparr>,
      isListening = False, isProcessing = False, conversation = [],
      settings = \<lparr>account = ''acme'', username = ''ann'', password = ''pw'',
                   warehouse = ''COMPUTE_WH'', database = ''CORTEX_DB'', schema = ''AGENTS'',
                   agent = ''mistral-large'', language = ''en-US''\<rparr>,
      uiState = Ready, settingsModal = False, toasts = [], fetches = [], awaiting = 0\<rparr>"
  by (simp add: session0_def eval_defs)

lemma listening0_eq:
  "listening0 =
     \<lparr>recognition = Some \<lparr>lang = ''en-US'', started = True, stopping = False\<rparr>,
      isListening = True, isProcessing = False, conversation = [],
      settings = \<lparr>account = ''acme'', username = ''ann'', password = ''pw'',
                   warehouse = ''COMPUTE_WH'', database = ''CORTEX_DB'', schema = ''AGENTS'',
                   agent = ''mistral-large'', language = ''en-US''\<rparr>,
      uiState = Listening, settingsModal = False, toasts = [], fetches = [], awaiting = 0\<rparr>"
  by (simp add: listening0_def session0_eq eval_defs)

lemma processing0_eq:
  "processing0 =
     \<lparr>recognition = Some \<lparr>lang = ''en-US'', started = False, stopping = False\<rparr>,
      isListening = False, isProcessing = True,
      conversation = [\<lparr>role = User, content = Str ''hi''\<rparr>],
      settings = \<lparr>account = ''acme'', username = ''ann'', password = ''pw'',
                   warehouse = ''COMPUTE_WH'', database = ''CORTEX_DB'', schema = ''AGENTS'',
                   agent = ''mistral-large'', language = ''en-US''\<rparr>,
      uiState = Processing, settingsModal = False, toasts = [],
      fetches = [ann_request], awaiting = 1\<rparr>"
  by (simp add: processing0_def listening0_eq ann_request_def eval_defs)

subsection \<open>Auxiliary facts\<close>

lemma valid_iff:
  "truthy (validateSettings s) =
     (account (settings s) \<noteq> [] \<and> username (settings s) \<noteq> [] \<and> agent (settings s) \<noteq> [])"
  by (simp add: validateSettings_def js_and_def truthy_def)

lemma invalid_iff:
  "(validateSettings s = []) =
     (account (settings s) = [] \<or> username (settings s) = [] \<or> agent (settings s) = [])"
  by (simp add: validateSettings_def js_and_def truthy_def)

text \<open>The check in \<^verbatim>\<open>sendToCortexAgent\<close> is the one of \<^verbatim>\<open>validateSettings\<close>.\<close>

lemma request_iff:
  "sendToCortexAgent_request u s =
     (if truthy (validateSettings s)
      then Inr \<lparr>req_account = account (settings s), req_username = username (settings s),
                req_password = password (settings s), req_warehouse = warehouse (settings s),
                req_database = database (settings s), req_schema = schema (settings s),
                req_agent = agent (settings s), req_message = u,
                req_conversation = Some (conversation s)\<rparr>
      else Inl ''Snowflake configuration incomplete. Please check your settings.'')"
  unfolding valid_iff by (simp add: sendToCortexAgent_request_def truthy_def Let_def)

lemma stopListening_fields [simp]:
  "isListening (stopListening s) = isListening s"
  "isProcessing (stopListening s) = isProcessing s"
  "uiState (stopListening s) = uiState s"
  "conversation (stopListening s) = conversation s"
  "fetches (stopListening s) = fetches s"
  "awaiting (stopListening s) = awaiting s"
  "settings (stopListening s) = settings s"
  "toasts (stopListening s) = toasts s"
  "recognising (stopListening s) = recognising s"
  by (simp_all add: stopListening_def recognising_def split: option.splits)

lemma settle_fields:
  "isProcessing (handleFinalTranscript_settle r s) = False"
  "uiState (handleFinalTranscript_settle r s) = Ready"
  "isListening (handleFinalTranscript_settle r s) = isListening s"
  "recognition (handleFinalTranscript_settle r s) = recognition s"
  "fetches (handleFinalTranscript_settle r s) = fetches s"
  "awaiting (handleFinalTranscript_settle r s) = awaiting s"
  "settings (handleFinalTranscript_settle r s) = settings s"
  "conversation (handleFinalTranscript_settle r s) =
     conversation s @ [\<lparr>role = Agent, content = (case r of Inl msg \<Rightarrow> Str apology | Inr v \<Rightarrow> v)\<rparr>]"
  "toasts (handleFinalTranscript_settle r s) =
     toasts s @ (case r of Inl msg \<Rightarrow> [(Error, ''Error communicating with Cortex Agent: '' @ msg)]
                 | Inr v \<Rightarrow> [])"
  by (simp_all add: handleFinalTranscript_settle_def updateUI_def addMessage_def showError_def
      showToast_def Let_def split: sum.splits)

lemma saveSettingsData_fields:
  "fetches (saveSettingsData inp s) = fetches s"
  "awaiting (saveSettingsData inp s) = awaiting s"
  "conversation (saveSettingsData inp s) = conversation s"
  "isListening (saveSettingsData inp s) = isListening s"
  "isProcessing (saveSettingsData inp s) = isProcessing s"
  "uiState (saveSettingsData inp s) = uiState s"
  "settings (saveSettingsData inp s) =
     \<lparr>account = trim (accountInput inp), username = trim (usernameInput inp),
      password = passwordInput inp,
      warehouse = js_or (trim (warehouseInput inp)) ''COMPUTE_WH'',
      database = js_or (trim (databaseInput inp)) ''CORTEX_DB'',
      schema = js_or (trim (schemaInput inp)) ''AGENTS'',
      agent = js_or (trim (agentInput inp)) ''MY_AGENT'',
      language = languageSelect inp\<rparr>"
  by (simp_all add: saveSettingsData_def Let_def showSuccess_def showToast_def closeSettingsModal_def
      split: option.splits)


lemma handleFinalTranscript_blank: "\<not> truthy (trim t) \<Longrightarrow> handleFinalTranscript t s = s"
  by (simp add: handleFinalTranscript_def handleFinalTranscript_begin_def)

lemma handleFinalTranscript_conversation:
  "truthy (trim t) \<Longrightarrow>
   conversation (handleFinalTranscript t s) =
     conversation s @ \<lparr>role = User, content = Str t\<rparr>
       # (if truthy (validateSettings s) then [] else [\<lparr>role = Agent, content = Str apology\<rparr>])"
  by (simp add: handleFinalTranscript_def handleFinalTranscript_begin_def request_iff Let_def
      settle_fields addMessage_def updateUI_def valid_iff)

lemma handleFinalTranscript_fetches:
  "fetches (handleFinalTranscript t s) =
     fetches s @
       (if truthy (trim t) \<and> truthy (validateSettings s)
        then [\<lparr>req_account = account (settings s), req_username = username (settings s),
               req_password = password (settings s), req_warehouse = warehouse (settings s),
               req_database = database (settings s), req_schema = schema (settings s),
               req_agent = agent (settings s), req_message = t,
               req_conversation = Some (conversation s @ [\<lparr>role = User, content = Str t\<rparr>])\<rparr>]
        else [])"
  by (simp add: handleFinalTranscript_def handleFinalTranscript_begin_def request_iff Let_def
      settle_fields addMessage_def updateUI_def valid_iff)

lemma begin_fetching:
  "handleFinalTranscript_begin t s = (s1, Fetching req) \<Longrightarrow>
     truthy (trim t) \<and> truthy (validateSettings s)
     \<and> req = \<lparr>req_account = account (settings s), req_username = username (settings s),
               req_password = password (settings s), req_warehouse = warehouse (settings s),
               req_database = database (settings s), req_schema = schema (settings s),
               req_agent = agent (settings s), req_message = t,
               req_conversation = Some (conversation s @ [\<lparr>role = User, content = Str t\<rparr>])\<rparr>
     \<and> fetches s1 = fetches s @ [req] \<and> awaiting s1 = Suc (awaiting s)
     \<and> conversation s1 = conversation s @ [\<lparr>role = User, content = Str t\<rparr>]"
  by (auto simp add: handleFinalTranscript_begin_def request_iff Let_def addMessage_def updateUI_def
      valid_iff split: if_splits)

subsection \<open>Settings validation\<close>

text \<open>
  Claim C9. Validation of the settings succeeds exactly when the account, the
  user name and the agent identifier are all non-empty; the password, the
  warehouse, database and schema selectors and the language play no part in it.
\<close>

theorem validateSettings_iff:
  "truthy (validateSettings s) =
     (account (settings s) \<noteq> [] \<and> username (settings s) \<noteq> [] \<and> agent (settings s) \<noteq> [])
   \<and> validateSettings
        (s\<lparr>settings := (settings s)\<lparr>password := p, warehouse := w, database := d, schema := sc,
                                      language := l\<rparr>\<rparr>)
       = validateSettings s"
  by (simp add: validateSettings_def js_and_def truthy_def)

subsection \<open>Prompt assembly\<close>

text \<open>
  The relay's assembly, on the conversation array of the request body: an
  absent or empty array gives the message itself, and otherwise the last five
  entries at most are rendered, oldest first.
\<close>

lemma slice_last5: "slice (- 5) xs = drop (length xs - 5) xs"
  by (simp add: slice_def Let_def max_def nat_diff_distrib')

lemma length_slice_last5: "length (slice (- 5) xs) = min (length xs) 5"
  by (simp add: slice_last5)

lemma fullPrompt_empty: "fullPrompt u None = u" "fullPrompt u (Some []) = u"
  by (simp_all add: fullPrompt_def)

lemma fullPrompt_history:
  "conv \<noteq> [] \<Longrightarrow>
   fullPrompt u (Some conv) =
     ''Previous conversation:\<newline>'' @ join ''\<newline>'' (map render (drop (length conv - 5) conv))
       @ ''\<newline>\<newline>User: '' @ u @ ''\<newline>\<newline>Assistant:''"
  by (simp add: fullPrompt_def slice_last5)

text \<open>
  The client appends the new utterance to \<^verbatim>\<open>this.conversation\<close> before it builds the
  body, so the array the relay receives is never empty and ends with the
  utterance: with N prior turns the prompt holds the last four of them at most,
  then the utterance as a rendered turn, then the utterance again.
\<close>

lemma dispatched_prompt:
  assumes "truthy (trim u)" "truthy (validateSettings s)"
  shows "\<exists>s' req. handleFinalTranscript_begin u s = (s', Fetching req)
           \<and> req_message req = u
           \<and> req_conversation req = Some (conversation s @ [\<lparr>role = User, content = Str u\<rparr>])
           \<and> fullPrompt (req_message req) (req_conversation req) =
               ''Previous conversation:\<newline>''
               @ join ''\<newline>'' (map render (drop (length (conversation s) - 4) (conversation s))
                                    @ [''User: '' @ u])
               @ ''\<newline>\<newline>User: '' @ u @ ''\<newline>\<newline>Assistant:''"
proof -
  have d: "drop (Suc (length xs) - 5) (xs @ [x]) = drop (length xs - 4) xs @ [x]" for xs :: "message list" and x
    by (simp add: Suc_diff_le)
  from assms show ?thesis
    by (simp add: handleFinalTranscript_begin_def request_iff Let_def addMessage_def updateUI_def
        valid_iff fullPrompt_history d render_def)
qed

text \<open>
  Claim C1. With an empty history the assembled prompt is the utterance itself,
  and otherwise it holds exactly min(N, 5) rendered prior turns followed by the
  utterance. The program does not do this: at the first utterance of a session
  (empty history, \<open>What is the weather\<close>) the body carries the utterance as a turn
  of the conversation, and the relay's prompt for it renders the utterance twice
  under the heading of a previous conversation.
\<close>

theorem first_utterance_prompt:
  "conversation session0 = []
   \<and> (case handleFinalTranscript_begin ''What is the weather'' session0 of
        (s, Fetching req) \<Rightarrow>
          req_message req = ''What is the weather''
          \<and> req_conversation req = Some [\<lparr>role = User, content = Str ''What is the weather''\<rparr>]
          \<and> fullPrompt (req_message req) (req_conversation req)
              = ''Previous conversation:\<newline>User: What is the weather\<newline>\<newline>User: What is the weather\<newline>\<newline>Assistant:''
          \<and> fullPrompt (req_message req) (req_conversation req) \<noteq> ''What is the weather''
      | _ \<Rightarrow> False)"
  by (simp add: session0_eq handleFinalTranscript_begin_def sendToCortexAgent_request_def truthy_def
      trim_def isWhiteSpace_def Let_def addMessage_def updateUI_def stopListening_def fullPrompt_def
      slice_def render_def)

subsection \<open>Clearing the conversation\<close>

text \<open>
  Claim C5, as amended. A clear request that the user confirms empties the turns
  and changes nothing else: the listening and processing flags, the state shown
  and the recogniser are as before. A clear request that the user declines
  changes nothing.
\<close>

theorem clearConversation_effect:
  "clearConversation True s = s\<lparr>conversation := []\<rparr> \<and> clearConversation False s = s"
  by (simp add: clearConversation_def)

text \<open>
  Claim C5 as stated fails: a confirmed clear while listening leaves the session
  listening, with the recogniser running, not idle.
\<close>

theorem clear_keeps_listening:
  "isListening listening0 \<and> uiState listening0 = Listening
   \<and> conversation (step (ClearClick True) listening0) = []
   \<and> isListening (step (ClearClick True) listening0)
   \<and> recognising (step (ClearClick True) listening0)
   \<and> uiState (step (ClearClick True) listening0) = Listening
   \<and> uiState (step (ClearClick True) listening0) \<noteq> Ready"
  by (simp add: listening0_eq clearConversation_def recognising_def)

subsection \<open>The connection cache\<close>

text \<open>
  Claim C10. Once a connection is cached under the key of an account and a user
  name, every later request with that account and user name is given the cached
  connection, whatever its password, warehouse, database and schema, and
  whatever the driver would have answered to them; the pool is left as it is.
  The endpoint answers two such requests alike, provided each carries some
  password (it rejects a request without one before it looks at the cache).
\<close>

theorem cached_connection_ignores_credentials:
  "(pool (pool_key c) = Some conn \<and> cfg_account c' = cfg_account c \<and> cfg_username c' = cfg_username c
      \<longrightarrow> getSnowflakeConnection connect pool c' = (pool, Inr conn))
   \<and> (getSnowflakeConnection connect pool c = (cached, Inr conn)
        \<and> cfg_account c' = cfg_account c \<and> cfg_username c' = cfg_username c
      \<longrightarrow> getSnowflakeConnection connect' cached c' = (cached, Inr conn))
   \<and> (pool (req_account r @ ''-'' @ req_username r) = Some conn
        \<and> truthy (req_password r) \<and> truthy pw
      \<longrightarrow> cortex_agent connect db pool
            (r\<lparr>req_password := pw, req_warehouse := w, req_database := d, req_schema := sc\<rparr>)
          = cortex_agent connect db pool r)"
  by (auto simp add: getSnowflakeConnection_def pool_key_def cortex_agent_def Let_def
      split: option.splits if_splits)

text \<open>
  A first request with the right password caches the connection; a later one
  with a password the driver refuses is served over it all the same.
\<close>

theorem cached_connection_ignores_credentials_witness:
  "getSnowflakeConnection connect_pw Map.empty ann_config = ([''acme-ann'' \<mapsto> ann_config], Inr ann_config)
   \<and> connect_pw (ann_config\<lparr>cfg_password := ''guess'', cfg_warehouse := ''WH2''\<rparr>)
       = Some ''Incorrect username or password''
   \<and> getSnowflakeConnection connect_pw [''acme-ann'' \<mapsto> ann_config]
        (ann_config\<lparr>cfg_password := ''guess'', cfg_warehouse := ''WH2''\<rparr>)
       = ([''acme-ann'' \<mapsto> ann_config], Inr ann_config)
   \<and> cortex_agent connect_pw (db_returning ''fine'') [''acme-ann'' \<mapsto> ann_config]
        (ann_request\<lparr>req_password := ''guess'', req_warehouse := ''WH2'', req_database := ''DB2'',
                      req_schema := ''S2''\<rparr>)
       = cortex_agent connect_pw (db_returning ''fine'') [''acme-ann'' \<mapsto> ann_config] ann_request"
proof -
  let ?pool = "[''acme-ann'' \<mapsto> ann_config]"
  let ?c' = "ann_config\<lparr>cfg_password := ''guess'', cfg_warehouse := ''WH2''\<rparr>"
  have first: "getSnowflakeConnection connect_pw Map.empty ann_config = (?pool, Inr ann_config)"
    by (simp add: getSnowflakeConnection_def pool_key_def connect_pw_def ann_config_def)
  have refused: "connect_pw ?c' = Some ''Incorrect username or password''"
    by (simp add: connect_pw_def ann_config_def)
  have cached: "?pool (pool_key ann_config) = Some ann_config"
    by (simp add: pool_key_def ann_config_def)
  have same: "cfg_account ?c' = cfg_account ann_config \<and> cfg_username ?c' = cfg_username ann_config"
    by simp
  have key: "?pool (req_account ann_request @ ''-'' @ req_username ann_request) = Some ann_config"
    by (simp add: ann_request_def)
  have pws: "truthy (req_password ann_request) \<and> truthy ''guess''"
    by (simp add: ann_request_def truthy_def)
  show ?thesis
    using first refused cached same key pws
      cached_connection_ignores_credentials
        [where pool = "?pool" and c = ann_config and c' = "?c'" and conn = ann_config
           and connect = connect_pw and connect' = connect_pw and cached = "?pool"
           and r = ann_request and pw = "''guess''" and w = "''WH2''" and d = "''DB2''"
           and sc = "''S2''" and db = "db_returning ''fine''"]
    by simp
qed

subsection \<open>Start-capture requests\<close>

text \<open>
  Claim C2, as amended. A start-capture request issued while the recogniser is
  already started changes nothing of the session (flags, state shown, turns,
  dispatches) or of the settings, and the one capture stream goes on; the
  microphone toggle issued while listening is a stop request, which also leaves
  the session as it is. Processing is no gate: whenever the recogniser is not
  started and the settings are valid, a start-capture request starts a capture.
\<close>

theorem start_while_started:
  "(recognising s \<longrightarrow>
      same_session s (startListening s) \<and> recognising (startListening s)
      \<and> settings (startListening s) = settings s)
   \<and> (isListening s \<longrightarrow>
        toggleListening s = stopListening s \<and> same_session s (toggleListening s)
        \<and> recognising (toggleListening s) = recognising s)
   \<and> (\<not> recognising s \<and> recognition s \<noteq> None \<and> truthy (validateSettings s)
        \<longrightarrow> recognising (startListening s))"
  by (auto simp add: same_session_def startListening_def toggleListening_def recognising_def
      stopListening_def showError_def showToast_def openSettings_def Let_def split: option.splits)

theorem start_while_started_witness:
  "recognising listening0 \<and> isListening listening0
   \<and> same_session listening0 (startListening listening0)
   \<and> recognising (startListening listening0)
   \<and> toggleListening listening0 = stopListening listening0
   \<and> same_session listening0 (toggleListening listening0)
   \<and> \<not> recognising session0 \<and> recognising (startListening session0)"
proof -
  have l: "recognising listening0 \<and> isListening listening0"
    by (simp add: listening0_eq recognising_def)
  have i: "\<not> recognising session0 \<and> recognition session0 \<noteq> None \<and> truthy (validateSettings session0)"
    by (simp add: session0_eq recognising_def validateSettings_def js_and_def truthy_def)
  show ?thesis
    using l i start_while_started [of listening0] start_while_started [of session0]
    by blast
qed

text \<open>
  Claim C2 as stated fails while processing: with the first call of the relay
  still awaited and the recogniser ended, a click on the microphone starts a
  second capture, the session shows listening, and a further final transcript
  makes a second dispatch beside the first.
\<close>

theorem start_while_processing:
  "isProcessing processing0 \<and> uiState processing0 = Processing
   \<and> \<not> isListening processing0 \<and> \<not> recognising processing0
   \<and> length (fetches processing0) = 1 \<and> awaiting processing0 = 1
   \<and> startListening processing0 \<noteq> processing0
   \<and> recognising (step MicClick processing0)
   \<and> isListening (run [MicClick, RecStart] processing0)
   \<and> uiState (run [MicClick, RecStart] processing0) = Listening
   \<and> isProcessing (run [MicClick, RecStart] processing0)
   \<and> length (fetches (run [MicClick, RecStart, RecResult [(''again'', True)]] processing0)) = 2
   \<and> awaiting (run [MicClick, RecStart, RecResult [(''again'', True)]] processing0) = 2"
  by (simp add: processing0_eq eval_defs)

subsection \<open>Turns and their text\<close>

lemma step_user_turns:
  "list_all user_turn_ok (conversation s) \<Longrightarrow> list_all user_turn_ok (conversation (step e s))"
proof (cases e)
  case (RecResult results)
  show ?thesis if "list_all user_turn_ok (conversation s)"
  proof (cases "truthy (trim (concat (map fst (filter snd results))))")
    case True
    with that RecResult show ?thesis
      by (simp add: onresult_def Let_def handleFinalTranscript_conversation user_turn_ok_def)
  next
    case False
    with that RecResult show ?thesis
      by (simp add: onresult_def Let_def handleFinalTranscript_blank)
  qed
next
  case (FetchSettled outcome)
  then show "list_all user_turn_ok (conversation s) \<Longrightarrow> ?thesis"
    by (simp add: settle_fields user_turn_ok_def)
qed (simp_all add: toggleListening_def startListening_def showError_def showToast_def openSettings_def
      closeSettingsModal_def clearConversation_def saveSettingsData_fields Let_def
      onstart_def onerror_def onend_def updateUI_def recognition_ended_def split: option.splits)

lemma run_user_turns:
  "list_all user_turn_ok (conversation s) \<Longrightarrow> list_all user_turn_ok (conversation (run es s))"
  by (induction es arbitrary: s) (simp_all add: step_user_turns)

text \<open>
  Claim C3, as amended. In every state the page reaches, from any stored
  settings and under any sequence of events, every user turn has a text that is
  not empty after trimming; a final transcript that is empty after trimming
  changes nothing at all, so it appends no turn and leaves the flags and the
  state shown as they are. Nothing is said of the text of agent turns.
\<close>

theorem user_turns_nonblank:
  "list_all user_turn_ok (conversation (run es (VoiceCortexApp supported saved)))
   \<and> (\<not> truthy (trim t) \<longrightarrow>
        handleFinalTranscript t s = s \<and> handleFinalTranscript_begin t s = (s, Returned))"
proof -
  have "list_all user_turn_ok (conversation (VoiceCortexApp supported saved))"
    by (simp add: VoiceCortexApp_def Let_def)
  then show ?thesis
    by (simp add: run_user_turns handleFinalTranscript_blank handleFinalTranscript_begin_def)
qed

theorem user_turns_nonblank_witness:
  "run [MicClick, RecStart, RecResult [(''hi'', True)], RecEnd] (VoiceCortexApp True (Some (settings session0)))
     = processing0
   \<and> conversation processing0 = [\<lparr>role = User, content = Str ''hi''\<rparr>]
   \<and> nonblank (Str ''hi'')
   \<and> \<not> truthy (trim ''   '')
   \<and> handleFinalTranscript ''   '' listening0 = listening0"
proof -
  have r: "run [MicClick, RecStart, RecResult [(''hi'', True)], RecEnd]
             (VoiceCortexApp True (Some (settings session0))) = processing0"
    by (simp add: processing0_def listening0_def session0_def VoiceCortexApp_def loadSettings_def Let_def)
  have b: "\<not> truthy (trim ''   '')"
    by (simp add: trim_def isWhiteSpace_def truthy_def)
  have "list_all user_turn_ok (conversation processing0)"
    using user_turns_nonblank
      [where es = "[MicClick, RecStart, RecResult [(''hi'', True)], RecEnd]"
         and supported = True and saved = "Some (settings session0)"]
    by (simp only: r)
  moreover have "handleFinalTranscript ''   '' listening0 = listening0"
    using b user_turns_nonblank [where t = "''   ''" and s = listening0] by blast
  ultimately show ?thesis
    using r b by (simp add: processing0_eq user_turn_ok_def)
qed

text \<open>
  Claim C3 as stated fails for agent turns: when the model's completion is the
  empty string, the relay passes it on and the page appends an agent turn with
  an empty text.
\<close>

theorem empty_agent_turn:
  "relayed (cortex_agent connect_pw (db_returning '''') Map.empty (last (fetches processing0)))
     = Response 200 (Parsed \<lparr>j_error = Undefined, j_message = Undefined, j_response = Str ''''\<rparr>)
   \<and> conversation
        (step (FetchSettled
                 (relayed (cortex_agent connect_pw (db_returning '''') Map.empty
                             (last (fetches processing0)))))
           processing0)
       = [\<lparr>role = User, content = Str ''hi''\<rparr>, \<lparr>role = Agent, content = Str ''''\<rparr>]
   \<and> trim '''' = []
   \<and> \<not> nonblank (Str '''')"
  by (simp add: processing0_eq ann_request_def eval_defs)

subsection \<open>The agent turn of a successful call\<close>

text \<open>
  Claim C4, as amended. When an awaited call settles with a 2xx status and a
  JSON body, the agent turn appended carries the \<^verbatim>\<open>response\<close> field of the body as
  it is, untrimmed. The relay answers with status 200 only after a query that
  returned; the field is then the \<^verbatim>\<open>RESPONSE\<close> column of the first row as it is, and
  the fixed text \<open>No response from agent\<close> exactly when there is no first row.
\<close>

theorem agent_turn_is_response:
  "(awaiting s > 0 \<and> ok status \<longrightarrow>
      conversation (step (FetchSettled (Response status (Parsed j))) s)
        = conversation s @ [\<lparr>role = Agent, content = j_response j\<rparr>])
   \<and> (cortex_agent connect db pool req = (pool', 200, j) \<longrightarrow>
        (\<exists>conn result.
           db conn completeQuery [req_agent req, fullPrompt (req_message req) (req_conversation req)]
             = Rows result
           \<and> j_response j = (case result of Some (r # rs) \<Rightarrow> RESPONSE r
                                | _ \<Rightarrow> Str ''No response from agent'')))"
  by (auto simp add: settle_fields cortex_agent_def extractResponse_def
      split: if_splits prod.splits sum.splits query_result.splits) blast

theorem agent_turn_is_response_witness:
  "awaiting processing0 > 0 \<and> ok 200
   \<and> cortex_agent connect_pw (\<lambda>conn sql binds. Rows (Some [])) Map.empty ann_request
       = ([''acme-ann'' \<mapsto> ann_config], 200,
          \<lparr>j_error = Undefined, j_message = Undefined, j_response = Str ''No response from agent''\<rparr>)
   \<and> conversation
        (step (FetchSettled (Response 200 (Parsed
                 \<lparr>j_error = Undefined, j_message = Undefined,
                  j_response = Str ''No response from agent''\<rparr>))) processing0)
       = [\<lparr>role = User, content = Str ''hi''\<rparr>, \<lparr>role = Agent, content = Str ''No response from agent''\<rparr>]
   \<and> (\<exists>conn result.
         (\<lambda>conn sql binds. Rows (Some [])) conn completeQuery
            [req_agent ann_request, fullPrompt (req_message ann_request) (req_conversation ann_request)]
           = Rows result
         \<and> Str ''No response from agent''
             = (case result of Some (r # rs) \<Rightarrow> RESPONSE r | _ \<Rightarrow> Str ''No response from agent''))"
proof -
  let ?j = "\<lparr>j_error = Undefined, j_message = Undefined, j_response = Str ''No response from agent''\<rparr>"
  let ?db = "\<lambda>(conn :: connection) (sql :: string) (binds :: string list). Rows (Some [])"
  have a: "awaiting processing0 > 0 \<and> ok 200"
    by (simp add: processing0_eq ok_def)
  have c: "cortex_agent connect_pw ?db Map.empty ann_request = ([''acme-ann'' \<mapsto> ann_config], 200, ?j)"
    by (simp add: ann_request_def ann_config_def eval_defs)
  have conv: "conversation processing0 = [\<lparr>role = User, content = Str ''hi''\<rparr>]"
    by (simp add: processing0_eq)
  show ?thesis
    using a c conv
      agent_turn_is_response
        [where s = processing0 and status = 200 and j = "?j" and connect = connect_pw
           and db = "?db" and pool = Map.empty and req = ann_request
           and pool' = "[''acme-ann'' \<mapsto> ann_config]"]
    by simp
qed

text \<open>
  Claim C4 as stated fails: an empty completion text is not replaced by the
  fixed text, and a completion text is not trimmed.
\<close>

theorem empty_completion_not_replaced:
  "content (last (conversation
      (step (FetchSettled (relayed (cortex_agent connect_pw (db_returning '''') Map.empty ann_request)))
         processing0)))
     = Str ''''
   \<and> Str '''' \<noteq> Str ''No response from agent''
   \<and> content (last (conversation
        (step (FetchSettled (relayed (cortex_agent connect_pw (db_returning '' yes  '') Map.empty ann_request)))
           processing0)))
       = Str '' yes  ''
   \<and> trim '' yes  '' = ''yes''"
  by (simp add: processing0_eq ann_request_def eval_defs)

subsection \<open>Gateway failures\<close>



subsection \<open>Settings and dispatch\<close>

lemma step_fetches_invalid:
  "\<not> truthy (validateSettings s) \<Longrightarrow>
     fetches (step e s) = fetches s \<and> awaiting (step e s) \<le> awaiting s"
proof (cases e)
  case (RecResult results)
  then show "\<not> truthy (validateSettings s) \<Longrightarrow> ?thesis"
    by (auto simp add: onresult_def Let_def handleFinalTranscript_fetches handleFinalTranscript_def
        handleFinalTranscript_begin_def request_iff settle_fields addMessage_def updateUI_def valid_iff)
next
  case (FetchSettled outcome)
  then show ?thesis by (simp add: settle_fields)
qed (simp_all add: toggleListening_def startListening_def showError_def showToast_def openSettings_def
      closeSettingsModal_def clearConversation_def saveSettingsData_fields Let_def
      onstart_def onerror_def onend_def updateUI_def recognition_ended_def split: option.splits)

lemma step_requests_ok:
  "list_all request_ok (fetches s) \<Longrightarrow> list_all request_ok (fetches (step e s))"
proof (cases e)
  case (RecResult results)
  then show "list_all request_ok (fetches s) \<Longrightarrow> ?thesis"
    by (auto simp add: onresult_def Let_def handleFinalTranscript_fetches request_ok_def
        invalid_iff truthy_def)
next
  case (FetchSettled outcome)
  then show "list_all request_ok (fetches s) \<Longrightarrow> ?thesis" by (simp add: settle_fields)
qed (simp_all add: toggleListening_def startListening_def showError_def showToast_def openSettings_def
      closeSettingsModal_def clearConversation_def saveSettingsData_fields Let_def
      onstart_def onerror_def onend_def updateUI_def recognition_ended_def split: option.splits)

lemma run_requests_ok:
  "list_all request_ok (fetches s) \<Longrightarrow> list_all request_ok (fetches (run es s))"
  by (induction es arbitrary: s) (simp_all add: step_requests_ok)

lemma startListening_invalid:
  "\<not> truthy (validateSettings s) \<Longrightarrow>
     recognition (startListening s) = recognition s \<and> same_session s (startListening s)"
  by (simp add: startListening_def same_session_def showError_def showToast_def openSettings_def
      split: option.splits)

lemma handleFinalTranscript_invalid:
  "\<not> truthy (validateSettings s) \<Longrightarrow> truthy (trim t) \<Longrightarrow>
     conversation (handleFinalTranscript t s)
       = conversation s @ [\<lparr>role = User, content = Str t\<rparr>, \<lparr>role = Agent, content = Str apology\<rparr>]
     \<and> isProcessing (handleFinalTranscript t s) = False \<and> uiState (handleFinalTranscript t s) = Ready
     \<and> snd (handleFinalTranscript_begin t s)
         = Rejected ''Snowflake configuration incomplete. Please check your settings.''"
  by (simp add: handleFinalTranscript_def handleFinalTranscript_begin_def request_iff Let_def
      settle_fields addMessage_def updateUI_def valid_iff)

text \<open>
  Claim C7, as amended. No dispatch is attempted while the settings fail
  validation: in such a state no event adds a call of the gateway, and a
  start-capture request starts no capture and leaves the session as it is; a
  final transcript that arrives all the same is answered with the apology turn,
  the awaited promise being rejected before any call, and the session is back
  in the ready state. In every state the page reaches, each call made carries a
  non-empty account, user name and agent. Nothing is said of the processing
  phase of a session whose settings are invalid.
\<close>

theorem no_dispatch_while_invalid:
  "(\<not> truthy (validateSettings s) \<longrightarrow>
      fetches (step e s) = fetches s \<and> awaiting (step e s) \<le> awaiting s
      \<and> recognition (startListening s) = recognition s \<and> same_session s (startListening s)
      \<and> (truthy (trim t) \<longrightarrow>
           snd (handleFinalTranscript_begin t s)
             = Rejected ''Snowflake configuration incomplete. Please check your settings.''
           \<and> conversation (handleFinalTranscript t s)
             = conversation s @ [\<lparr>role = User, content = Str t\<rparr>, \<lparr>role = Agent, content = Str apology\<rparr>]
           \<and> isProcessing (handleFinalTranscript t s) = False
           \<and> uiState (handleFinalTranscript t s) = Ready))
   \<and> list_all request_ok (fetches (run es (VoiceCortexApp supported saved)))"
proof -
  have "list_all request_ok (fetches (VoiceCortexApp supported saved))"
    by (simp add: VoiceCortexApp_def Let_def)
  then have "list_all request_ok (fetches (run es (VoiceCortexApp supported saved)))"
    by (rule run_requests_ok)
  then show ?thesis
    using step_fetches_invalid [of s e] startListening_invalid [of s]
      handleFinalTranscript_invalid [of s t]
    by simp
qed

text \<open>
  A page with the default settings (no account, no user name): a click on the
  microphone starts nothing, and a final transcript makes no call.
\<close>

theorem no_dispatch_while_invalid_witness:
  "\<not> truthy (validateSettings (VoiceCortexApp True None)) \<and> truthy (trim ''hi'')
   \<and> fetches (step (RecResult [(''hi'', True)]) (VoiceCortexApp True None)) = []
   \<and> \<not> recognising (startListening (VoiceCortexApp True None))
   \<and> same_session (VoiceCortexApp True None) (startListening (VoiceCortexApp True None))
   \<and> conversation (handleFinalTranscript ''hi'' (VoiceCortexApp True None))
       = [\<lparr>role = User, content = Str ''hi''\<rparr>, \<lparr>role = Agent, content = Str apology\<rparr>]
   \<and> fetches (run [MicClick, RecStart, RecResult [(''hi'', True)], RecEnd]
                (VoiceCortexApp True (Some (settings session0))))
       = [ann_request]
   \<and> request_ok ann_request"
proof -
  let ?s = "VoiceCortexApp True None"
  have i: "\<not> truthy (validateSettings ?s)"
    by (simp add: VoiceCortexApp_def loadSettings_def defaultSettings_def validateSettings_def
        js_and_def truthy_def Let_def)
  have t: "truthy (trim ''hi'')"
    by (simp add: trim_def isWhiteSpace_def truthy_def)
  have z: "fetches ?s = [] \<and> \<not> recognising ?s \<and> conversation ?s = []"
    by (simp add: VoiceCortexApp_def recognising_def Let_def)
  have r: "run [MicClick, RecStart, RecResult [(''hi'', True)], RecEnd]
             (VoiceCortexApp True (Some (settings session0))) = processing0"
    by (simp add: processing0_def listening0_def session0_def VoiceCortexApp_def loadSettings_def Let_def)
  have f: "fetches processing0 = [ann_request]"
    by (simp add: processing0_eq)
  note inst = no_dispatch_while_invalid
      [where s = "?s" and e = "RecResult [(''hi'', True)]" and t = "''hi''"
         and es = "[MicClick, RecStart, RecResult [(''hi'', True)], RecEnd]"
         and supported = True and saved = "Some (settings session0)"]
  have rec: "recognising (startListening ?s) = recognising ?s"
    using inst i by (simp add: recognising_def)
  show ?thesis
    using inst i t z r f rec by simp
qed

text \<open>
  Claim C7 as stated fails in its second part: a session whose settings are
  invalid can be in processing. Settings saved with a blank account while a call
  is awaited leave the session processing with invalid settings; and settings
  saved so while listening are followed, at the next final transcript, by the
  processing state, which the handler enters before the settings are checked.
\<close>

theorem invalid_session_processing:
  "\<not> truthy (validateSettings (step (SaveSettingsClick blank_account) processing0))
   \<and> isProcessing (step (SaveSettingsClick blank_account) processing0)
   \<and> uiState (step (SaveSettingsClick blank_account) processing0) = Processing
   \<and> \<not> truthy (validateSettings (step (SaveSettingsClick blank_account) listening0))
   \<and> \<not> isProcessing (step (SaveSettingsClick blank_account) listening0)
   \<and> isProcessing
        (fst (handleFinalTranscript_begin ''hi'' (step (SaveSettingsClick blank_account) listening0)))
   \<and> uiState
        (fst (handleFinalTranscript_begin ''hi'' (step (SaveSettingsClick blank_account) listening0)))
       = Processing
   \<and> \<not> truthy (validateSettings
        (fst (handleFinalTranscript_begin ''hi'' (step (SaveSettingsClick blank_account) listening0))))"
  by (simp add: processing0_eq listening0_eq eval_defs)

text \<open>
  Claim C8. A dispatch carries the account, user name, password, agent,
  warehouse, database and schema that the settings held when it was made. Saving
  other settings while the call is awaited leaves the body of the call as it
  was, so that the gateway's answer to it, and with it the turn appended and the
  state in which the session is left, are what they would have been without the
  update; the next dispatch carries the values just saved.
\<close>

theorem settings_snapshot:
  assumes "handleFinalTranscript_begin t s = (s1, Fetching req)"
  shows "req_account req = account (settings s) \<and> req_username req = username (settings s)
     \<and> req_password req = password (settings s) \<and> req_agent req = agent (settings s)
     \<and> req_warehouse req = warehouse (settings s) \<and> req_database req = database (settings s)
     \<and> req_schema req = schema (settings s)
     \<and> last (fetches s1) = req
     \<and> fetches (saveSettingsData inp s1) = fetches s1
     \<and> last (fetches (saveSettingsData inp s1)) = req
     \<and> conversation (step (FetchSettled (gateway (last (fetches (saveSettingsData inp s1)))))
                        (saveSettingsData inp s1))
         = conversation (step (FetchSettled (gateway req)) s1)
     \<and> isProcessing (step (FetchSettled (gateway (last (fetches (saveSettingsData inp s1)))))
                        (saveSettingsData inp s1))
         = isProcessing (step (FetchSettled (gateway req)) s1)
     \<and> uiState (step (FetchSettled (gateway (last (fetches (saveSettingsData inp s1)))))
                        (saveSettingsData inp s1))
         = uiState (step (FetchSettled (gateway req)) s1)
     \<and> (settings s' = settings (saveSettingsData inp s1)
          \<and> handleFinalTranscript_begin t' s' = (s2, Fetching req') \<longrightarrow>
           req_account req' = trim (accountInput inp) \<and> req_username req' = trim (usernameInput inp)
           \<and> req_password req' = passwordInput inp
           \<and> req_agent req' = js_or (trim (agentInput inp)) ''MY_AGENT''
           \<and> req_warehouse req' = js_or (trim (warehouseInput inp)) ''COMPUTE_WH''
           \<and> req_database req' = js_or (trim (databaseInput inp)) ''CORTEX_DB''
           \<and> req_schema req' = js_or (trim (schemaInput inp)) ''AGENTS'')"
proof -
  from begin_fetching [OF assms]
  have req: "req = \<lparr>req_account = account (settings s), req_username = username (settings s),
               req_password = password (settings s), req_warehouse = warehouse (settings s),
               req_database = database (settings s), req_schema = schema (settings s),
               req_agent = agent (settings s), req_message = t,
               req_conversation = Some (conversation s @ [\<lparr>role = User, content = Str t\<rparr>])\<rparr>"
    and f: "fetches s1 = fetches s @ [req]" and a: "awaiting s1 = Suc (awaiting s)"
    by simp_all
  have next_req: "req_account req' = trim (accountInput inp) \<and> req_username req' = trim (usernameInput inp)
           \<and> req_password req' = passwordInput inp
           \<and> req_agent req' = js_or (trim (agentInput inp)) ''MY_AGENT''
           \<and> req_warehouse req' = js_or (trim (warehouseInput inp)) ''COMPUTE_WH''
           \<and> req_database req' = js_or (trim (databaseInput inp)) ''CORTEX_DB''
           \<and> req_schema req' = js_or (trim (schemaInput inp)) ''AGENTS''"
    if "settings s' = settings (saveSettingsData inp s1)"
      and "handleFinalTranscript_begin t' s' = (s2, Fetching req')"
    using begin_fetching [OF that(2)] that(1) by (simp add: saveSettingsData_fields)
  have sel: "req_account req = account (settings s) \<and> req_username req = username (settings s)
     \<and> req_password req = password (settings s) \<and> req_agent req = agent (settings s)
     \<and> req_warehouse req = warehouse (settings s) \<and> req_database req = database (settings s)
     \<and> req_schema req = schema (settings s)"
    by (simp add: req)
  have l: "last (fetches s1) = req" by (simp add: f)
  show ?thesis
    using sel l a next_req by (simp add: saveSettingsData_fields settle_fields)
qed

text \<open>
  The settings are replaced by those of another account while the first call is
  awaited: the call still names the first account, and so does the answer; the
  dispatch after the answer names the other account.
\<close>

theorem settings_snapshot_witness:
  "handleFinalTranscript_begin ''hi'' listening0 = (dispatched0, Fetching ann_request)
   \<and> account (settings (saveSettingsData other_account dispatched0)) = ''umbrella''
   \<and> last (fetches (saveSettingsData other_account dispatched0)) = ann_request
   \<and> conversation
        (step (FetchSettled (naming_gateway (last (fetches (saveSettingsData other_account dispatched0)))))
           (saveSettingsData other_account dispatched0))
       = [\<lparr>role = User, content = Str ''hi''\<rparr>, \<lparr>role = Agent, content = Str ''acme/mistral-large''\<rparr>]
   \<and> snd (handleFinalTranscript_begin ''again'' (saveSettingsData other_account dispatched0))
       = Fetching other_request
   \<and> req_account other_request = ''umbrella'' \<and> req_agent other_request = ''llama3-8b''"
proof -
  have d: "dispatched0 = processing0\<lparr>recognition := Some \<lparr>lang = ''en-US'', started = True, stopping = True\<rparr>,
             isListening := True\<rparr>"
    by (simp add: dispatched0_def listening0_eq processing0_eq ann_request_def
        handleFinalTranscript_begin_def sendToCortexAgent_request_def truthy_def trim_def
        isWhiteSpace_def Let_def addMessage_def updateUI_def stopListening_def)
  have b: "handleFinalTranscript_begin ''hi'' listening0 = (dispatched0, Fetching ann_request)"
    by (simp add: d listening0_eq processing0_eq ann_request_def
        handleFinalTranscript_begin_def sendToCortexAgent_request_def truthy_def trim_def
        isWhiteSpace_def Let_def addMessage_def updateUI_def stopListening_def)
  let ?s' = "saveSettingsData other_account dispatched0"
  have n: "snd (handleFinalTranscript_begin ''again'' ?s') = Fetching other_request"
    by (simp add: d processing0_eq ann_request_def other_request_def other_account_def
        saveSettingsData_def showSuccess_def showToast_def closeSettingsModal_def js_or_def
        handleFinalTranscript_begin_def sendToCortexAgent_request_def truthy_def trim_def
        isWhiteSpace_def Let_def addMessage_def updateUI_def stopListening_def)
  then have n2: "handleFinalTranscript_begin ''again'' ?s'
                   = (fst (handleFinalTranscript_begin ''again'' ?s'), Fetching other_request)"
    by (metis prod.collapse)
  have a: "account (settings ?s') = ''umbrella''"
    by (simp add: saveSettingsData_fields other_account_def trim_def isWhiteSpace_def)
  have c: "conversation (step (FetchSettled (naming_gateway ann_request)) dispatched0)
             = [\<lparr>role = User, content = Str ''hi''\<rparr>, \<lparr>role = Agent, content = Str ''acme/mistral-large''\<rparr>]"
    by (simp add: d processing0_eq naming_gateway_def ann_request_def ok_def settle_fields)
  note inst = settings_snapshot
      [OF b, where inp = other_account and gateway = naming_gateway and s' = "?s'"
         and t' = "''again''" and ?s2.0 = "fst (handleFinalTranscript_begin ''again'' ?s')"
         and req' = other_request]
  have k1: "last (fetches ?s') = ann_request"
    using inst by blast
  have k2: "conversation (step (FetchSettled (naming_gateway (last (fetches ?s')))) ?s')
              = conversation (step (FetchSettled (naming_gateway ann_request)) dispatched0)"
    using inst by blast
  have k3: "req_account other_request = trim (accountInput other_account)
              \<and> req_agent other_request = js_or (trim (agentInput other_account)) ''MY_AGENT''"
    using inst n2 by blast
  have o: "req_account other_request = ''umbrella'' \<and> req_agent other_request = ''llama3-8b''"
    using k3 by (simp add: other_account_def trim_def isWhiteSpace_def js_or_def truthy_def)
  show ?thesis
    using b a k1 n o by (simp del: step.simps add: k2 [unfolded k1] c)
qed

end
